theory Spec2Isabelle
  imports Main
begin

section \<open>Values, errors and the bus\<close>

text \<open>
  The mirrors store what the bus delivers without converting it, so a snapshot field
  holds a JavaScript value: \<open>undefined\<close>, \<open>null\<close>, a boolean, a number, a string,
  an array of strings (\<open>Interfaces\<close>, \<open>Features\<close>, \<open>EmergencyNumbers\<close>, ...), an object
  of boolean members (\<open>HandsfreeFeatures\<close>, \<open>NetworkRegistrationTechnology\<close>), a
  \<open>new Variant(signature, value)\<close> built for a property write, or a member
  inherited from \<open>Object.prototype\<close> (what an enum object returns for a key such as
  \<open>toString\<close>).
\<close>

datatype jsval =
    Undefined
  | Null
  | Bool bool
  | Num int
  | Str string
  | Strs "string list"
  | Flags "(string \<times> bool) list"
  | Variant string jsval
  | Inherited string

text \<open>
  What a call can throw or reject with: \<open>new Error(message)\<close> as the sources write
  it, the \<open>TypeError\<close> of reading a member of \<open>undefined\<close>, and a failure reported
  by the bus.
\<close>

datatype error =
    Error string
  | TypeError
  | RemoteFault string

text \<open>\<open>a ?? b\<close>\<close>

definition nullish :: "jsval \<Rightarrow> jsval \<Rightarrow> jsval" where
  "nullish a b = (if a = Undefined \<or> a = Null then b else a)"

text \<open>Truthiness, as the conditional operator tests it.\<close>

fun truthy :: "jsval \<Rightarrow> bool" where
  "truthy Undefined = False"
| "truthy Null = False"
| "truthy (Bool b) = b"
| "truthy (Num n) = (n \<noteq> 0)"
| "truthy (Str s) = (s \<noteq> [])"
| "truthy _ = True"

text \<open>
  A property map as \<open>GetProperties\<close>, \<open>GetModems\<close> and \<open>GetCalls\<close> return it: each
  name present carries a variant, of which the sources read \<open>.value\<close>.
  \<open>props.K.value\<close> throws when \<open>K\<close> is absent; \<open>props.K?.value\<close> is \<open>undefined\<close>
  then.
\<close>

type_synonym variant_map = "string \<rightharpoonup> jsval"

definition member_value :: "variant_map \<Rightarrow> string \<Rightarrow> error + jsval" where
  "member_value props k = (case props k of None \<Rightarrow> Inl TypeError | Some v \<Rightarrow> Inr v)"

definition optional_value :: "variant_map \<Rightarrow> string \<Rightarrow> jsval" where
  "optional_value props k = (case props k of None \<Rightarrow> Undefined | Some v \<Rightarrow> v)"

definition bindE :: "error + 'a \<Rightarrow> ('a \<Rightarrow> error + 'b) \<Rightarrow> error + 'b" where
  "bindE x f = (case x of Inl e \<Rightarrow> Inl e | Inr a \<Rightarrow> f a)"

text \<open>
  A bus connection. \<open>systemBus()\<close> opens a new one each time it is called; the
  world counts the connections opened so far, and the count names the next one.
\<close>

datatype message_bus = Connection nat

text \<open>
  What a mirror asks of the bus. \<open>MethodCall bus path iface member args\<close> is
  \<open>bus.getProxyObject('org.ofono', path)\<close>, \<open>proxy.getInterface(iface)\<close> and the call
  of \<open>member\<close> on that interface, taken as one request that succeeds or fails as a
  whole. \<open>Listen bus path iface signals\<close> is the same lookup followed by
  \<open>iface.on(signal, handler)\<close> for each signal named.
\<close>

datatype request =
    MethodCall message_bus string string string "jsval list"
  | Listen message_bus string string "string list"

text \<open>
  What the bus answers: nothing, a property map (\<open>GetProperties\<close>), an object path
  (\<open>Dial\<close>), a list of paths (\<open>PrivateChat\<close>, \<open>CreateMultiparty\<close>), or a list of
  paths with their property maps (\<open>GetModems\<close>, \<open>GetCalls\<close>). The bus itself is a
  parameter of the model: a function that says, for each request, whether it fails and
  what it answers. The signature of a method fixes the shape of its answer; where the
  model has to say something about an answer of another shape, it says \<open>TypeError\<close>.
\<close>

datatype reply =
    Unit
  | Props variant_map
  | Path string
  | Paths "string list"
  | Objects "(string \<times> variant_map) list"

type_synonym remote = "request \<Rightarrow> error + reply"

text \<open>
  The world outside the mirrors: the requests sent so far, oldest first; the handlers
  registered on the bus, each as connection, path, interface and signal; and the number
  of connections opened.
\<close>

record world =
  sent :: "request list"
  listeners :: "(message_bus \<times> string \<times> string \<times> string) list"
  connections :: nat

definition systemBus :: "world \<Rightarrow> message_bus \<times> world" where
  "systemBus w = (Connection (connections w), w\<lparr>connections := Suc (connections w)\<rparr>)"

text \<open>A parameter \<open>bus: MessageBus = systemBus()\<close>: the default is evaluated when
  the caller passes nothing.\<close>

definition defaultBus :: "message_bus option \<Rightarrow> world \<Rightarrow> message_bus \<times> world" where
  "defaultBus arg w = (case arg of Some b \<Rightarrow> (b, w) | None \<Rightarrow> systemBus w)"

definition call :: "remote \<Rightarrow> request \<Rightarrow> world \<Rightarrow> (error + reply) \<times> world" where
  "call R r w = (R r, w\<lparr>sent := sent w @ [r]\<rparr>)"

text \<open>
  The body of every \<open>listenForChanges\<close>: look the interface up and register the
  handlers. When the lookup fails the promise rejects and no handler is registered.
\<close>

definition listen :: "remote \<Rightarrow> message_bus \<Rightarrow> string \<Rightarrow> string \<Rightarrow> string list \<Rightarrow> world \<Rightarrow> (error + unit) \<times> world" where
  "listen R bus path iface signals w =
     (case call R (Listen bus path iface signals) w of
        (Inl e, w') \<Rightarrow> (Inl e, w')
      | (Inr _, w') \<Rightarrow>
          (Inr (), w'\<lparr>listeners := listeners w' @ map (\<lambda>s. (bus, path, iface, s)) signals\<rparr>))"

text \<open>An action method: one call whose reply is dropped.\<close>

definition action :: "remote \<Rightarrow> request \<Rightarrow> world \<Rightarrow> (error + unit) \<times> world" where
  "action R r w = (case call R r w of (Inl e, w') \<Rightarrow> (Inl e, w') | (Inr _, w') \<Rightarrow> (Inr (), w'))"

text \<open>
  \<open>v.includes(x)\<close> and \<open>v.indexOf(x) === -1\<close> for a string \<open>x\<close>: an array is
  searched for an equal element, a string for \<open>x\<close> as a substring, and any other value
  has no such method, so the call throws.
\<close>

fun is_substring :: "string \<Rightarrow> string \<Rightarrow> bool" where
  "is_substring x [] = (x = [])"
| "is_substring x (c # cs) = (take (length x) (c # cs) = x \<or> is_substring x cs)"

fun js_includes :: "jsval \<Rightarrow> string \<Rightarrow> error + bool" where
  "js_includes (Strs xs) x = Inr (x \<in> set xs)"
| "js_includes (Str s) x = Inr (is_substring x s)"
| "js_includes _ x = Inl TypeError"

definition indexOf_is_minus1 :: "jsval \<Rightarrow> string \<Rightarrow> error + bool" where
  "indexOf_is_minus1 v x = bindE (js_includes v x) (\<lambda>found. Inr (\<not> found))"

datatype event = Change | DisconnectReason jsval

text \<open>
  \<open>E[value as keyof typeof E]\<close> on a string enum: the enum object has one own
  property per member NAME, holding the member's string. A string is looked up as it
  is and an array of strings under its elements joined by commas; the keys of the other
  values (\<open>undefined\<close>, \<open>null\<close>, \<open>true\<close>, a numeral, \<open>[object Object]\<close>, a function's
  text) name no property. Names that are not own properties fall through to
  \<open>Object.prototype\<close>.
\<close>

definition Object_prototype :: "string list" where
  "Object_prototype =
     [''constructor'', ''hasOwnProperty'', ''isPrototypeOf'', ''propertyIsEnumerable'',
      ''toLocaleString'', ''toString'', ''valueOf'', ''__proto__'', ''__defineGetter__'',
      ''__defineSetter__'', ''__lookupGetter__'', ''__lookupSetter__'']"

fun join :: "string list \<Rightarrow> string" where
  "join [] = []"
| "join [s] = s"
| "join (s # t # ss) = s @ '','' @ join (t # ss)"

definition enum_key :: "(string \<times> string) list \<Rightarrow> string \<Rightarrow> jsval" where
  "enum_key members k =
     (case map_of members k of
        Some v \<Rightarrow> Str v
      | None \<Rightarrow> if k \<in> set Object_prototype then Inherited k else Undefined)"

fun enum_index :: "(string \<times> string) list \<Rightarrow> jsval \<Rightarrow> jsval" where
  "enum_index members (Str k) = enum_key members k"
| "enum_index members (Strs ks) = enum_key members (join ks)"
| "enum_index members _ = Undefined"

section \<open>VoiceCall (src/lib/voiceCall.ts)\<close>

definition VoiceCallState :: "(string \<times> string) list" where
  "VoiceCallState =
     [(''Active'', ''active''), (''Held'', ''held''), (''Dialing'', ''dialing''),
      (''Alerting'', ''alerting''), (''Incoming'', ''incoming''), (''Waiting'', ''waiting''),
      (''Disconnected'', ''disconnected'')]"

record voicecall =
  vc_path :: string
  vc_bus :: message_bus
  vc_lineIdentification :: jsval
  vc_incomingLine :: jsval
  vc_name :: jsval
  vc_multiparty :: jsval
  vc_state :: jsval
  vc_startTime :: jsval
  vc_information :: jsval
  vc_icon :: jsval
  vc_emergency :: jsval
  vc_remoteHeld :: jsval
  vc_remoteMultiparty :: jsval

text \<open>The handler \<open>listenForChanges\<close> registers for \<open>PropertyChanged\<close>: the mirror
  after the notification and the events emitted.\<close>

definition VoiceCall_PropertyChanged :: "string \<Rightarrow> jsval \<Rightarrow> voicecall \<Rightarrow> voicecall \<times> event list" where
  "VoiceCall_PropertyChanged prop v c =
     (if prop = ''LineIdentification'' then (c\<lparr>vc_lineIdentification := v\<rparr>, [Change])
      else if prop = ''IncomingLine'' then (c\<lparr>vc_incomingLine := v\<rparr>, [Change])
      else if prop = ''Name'' then (c\<lparr>vc_name := v\<rparr>, [Change])
      else if prop = ''Multiparty'' then (c\<lparr>vc_multiparty := v\<rparr>, [Change])
      else if prop = ''State'' then (c\<lparr>vc_state := enum_index VoiceCallState v\<rparr>, [Change])
      else if prop = ''StartTime'' then (c\<lparr>vc_startTime := v\<rparr>, [Change])
      else if prop = ''Information'' then (c\<lparr>vc_information := v\<rparr>, [Change])
      else if prop = ''Icon'' then (c\<lparr>vc_icon := v\<rparr>, [Change])
      else if prop = ''Emergency'' then (c\<lparr>vc_emergency := v\<rparr>, [Change])
      else if prop = ''RemoteHeld'' then (c\<lparr>vc_remoteHeld := v\<rparr>, [Change])
      else if prop = ''RemoteMultiparty'' then (c\<lparr>vc_remoteMultiparty := v\<rparr>, [Change])
      else (c, []))"

definition VoiceCall_DisconnectReason :: "jsval \<Rightarrow> voicecall \<Rightarrow> voicecall \<times> event list" where
  "VoiceCall_DisconnectReason reason c = (c, [DisconnectReason reason])"

definition VoiceCall_listenForChanges :: "remote \<Rightarrow> voicecall \<Rightarrow> world \<Rightarrow> (error + unit) \<times> world" where
  "VoiceCall_listenForChanges R c w =
     listen R (vc_bus c) (vc_path c) ''org.ofono.VoiceCall'' [''DisconnectReason'', ''PropertyChanged''] w"

text \<open>
  The constructor. \<open>data\<close> is the object it is given, read by member name (a member
  that was not written reads \<open>undefined\<close>). It ends with \<open>this.listenForChanges()\<close>,
  whose promise nobody awaits: whatever that call comes to, the constructor returns
  the mirror, and a rejection stays unhandled.
\<close>

definition VoiceCall_new :: "remote \<Rightarrow> string \<Rightarrow> (string \<Rightarrow> jsval) \<Rightarrow> message_bus \<Rightarrow> world \<Rightarrow> voicecall \<times> world" where
  "VoiceCall_new R path data bus w =
     (let c = \<lparr>vc_path = path, vc_bus = bus,
               vc_lineIdentification = data ''lineIdentification'',
               vc_incomingLine = data ''incomingLine'',
               vc_name = data ''name'',
               vc_multiparty = data ''multiparty'',
               vc_state = enum_index VoiceCallState (data ''state''),
               vc_startTime = data ''startTime'',
               vc_information = data ''information'',
               vc_icon = data ''icon'',
               vc_emergency = data ''emergency'',
               vc_remoteHeld = data ''remoteHeld'',
               vc_remoteMultiparty = data ''remoteMultiparty''\<rparr>
      in (c, snd (VoiceCall_listenForChanges R c w)))"

text \<open>The object literal that \<open>fromDBusObject\<close> and \<open>fromPath\<close> both build from
  a property map.\<close>

definition VoiceCall_data :: "variant_map \<Rightarrow> error + (string \<Rightarrow> jsval)" where
  "VoiceCall_data props =
     bindE (member_value props ''LineIdentification'') (\<lambda>lineIdentification.
     bindE (member_value props ''Name'') (\<lambda>name.
     bindE (member_value props ''Multiparty'') (\<lambda>multiparty.
     bindE (member_value props ''State'') (\<lambda>state.
     bindE (member_value props ''Emergency'') (\<lambda>emergency.
     bindE (member_value props ''RemoteHeld'') (\<lambda>remoteHeld.
     bindE (member_value props ''RemoteMultiparty'') (\<lambda>remoteMultiparty.
       Inr ((\<lambda>_. Undefined)
         (''lineIdentification'' := lineIdentification,
          ''incomingLine'' := optional_value props ''IncomingLine'',
          ''name'' := name,
          ''multiparty'' := multiparty,
          ''state'' := state,
          ''startTime'' := optional_value props ''StartTime'',
          ''information'' := optional_value props ''Information'',
          ''icon'' := optional_value props ''Icon'',
          ''emergency'' := emergency,
          ''remoteHeld'' := remoteHeld,
          ''remoteMultiparty'' := remoteMultiparty)))))))))"

definition VoiceCall_fromDBusObject :: "remote \<Rightarrow> string \<times> variant_map \<Rightarrow> message_bus option \<Rightarrow> world \<Rightarrow> (error + voicecall) \<times> world" where
  "VoiceCall_fromDBusObject R data busarg w =
     (let (bus, w1) = defaultBus busarg w in
      case VoiceCall_data (snd data) of
        Inl e \<Rightarrow> (Inl e, w1)
      | Inr d \<Rightarrow> (let (c, w2) = VoiceCall_new R (fst data) d bus w1 in (Inr c, w2)))"

definition VoiceCall_fromPath :: "remote \<Rightarrow> string \<Rightarrow> message_bus option \<Rightarrow> world \<Rightarrow> (error + voicecall) \<times> world" where
  "VoiceCall_fromPath R path busarg w =
     (let (bus, w1) = defaultBus busarg w in
      case call R (MethodCall bus path ''org.ofono.VoiceCall'' ''GetProperties'' []) w1 of
        (Inl e, w2) \<Rightarrow> (Inl e, w2)
      | (Inr (Props props), w2) \<Rightarrow>
          (case VoiceCall_data props of
             Inl e \<Rightarrow> (Inl e, w2)
           | Inr d \<Rightarrow> (let (c, w3) = VoiceCall_new R path d bus w2 in (Inr c, w3)))
      | (Inr _, w2) \<Rightarrow> (Inl TypeError, w2))"

definition VoiceCall_deflect :: "remote \<Rightarrow> voicecall \<Rightarrow> string \<Rightarrow> world \<Rightarrow> (error + unit) \<times> world" where
  "VoiceCall_deflect R c number w =
     action R (MethodCall (vc_bus c) (vc_path c) ''org.ofono.VoiceCall'' ''Deflect'' [Str number]) w"

definition VoiceCall_hangup :: "remote \<Rightarrow> voicecall \<Rightarrow> world \<Rightarrow> (error + unit) \<times> world" where
  "VoiceCall_hangup R c w =
     action R (MethodCall (vc_bus c) (vc_path c) ''org.ofono.VoiceCall'' ''Hangup'' []) w"

definition VoiceCall_answer :: "remote \<Rightarrow> voicecall \<Rightarrow> world \<Rightarrow> (error + unit) \<times> world" where
  "VoiceCall_answer R c w =
     action R (MethodCall (vc_bus c) (vc_path c) ''org.ofono.VoiceCall'' ''Hangup'' []) w"

section \<open>Modem (src/lib/modem.ts)\<close>

record modem =
  m_path :: string
  m_bus :: message_bus
  m_online :: jsval
  m_powered :: jsval
  m_lockdown :: jsval
  m_emergency :: jsval
  m_name :: jsval
  m_serial :: jsval
  m_manufacturer :: jsval
  m_model :: jsval
  m_revision :: jsval
  m_interfaces :: jsval
  m_type :: jsval

definition Modem_PropertyChanged :: "string \<Rightarrow> jsval \<Rightarrow> modem \<Rightarrow> modem \<times> event list" where
  "Modem_PropertyChanged name v m =
     (if name = ''Online'' then (m\<lparr>m_online := v\<rparr>, [Change])
      else if name = ''Powered'' then (m\<lparr>m_powered := v\<rparr>, [Change])
      else if name = ''Lockdown'' then (m\<lparr>m_lockdown := v\<rparr>, [Change])
      else if name = ''Emergency'' then (m\<lparr>m_emergency := v\<rparr>, [Change])
      else if name = ''Name'' then (m\<lparr>m_name := v\<rparr>, [Change])
      else if name = ''Manufacturer'' then (m\<lparr>m_manufacturer := v\<rparr>, [Change])
      else if name = ''Model'' then (m\<lparr>m_model := v\<rparr>, [Change])
      else if name = ''Revision'' then (m\<lparr>m_revision := v\<rparr>, [Change])
      else if name = ''Serial'' then (m\<lparr>m_serial := v\<rparr>, [Change])
      else if name = ''Interfaces'' then (m\<lparr>m_interfaces := v\<rparr>, [Change])
      else if name = ''Type'' then (m\<lparr>m_type := v\<rparr>, [Change])
      else (m, []))"

definition Modem_listenForChanges :: "remote \<Rightarrow> modem \<Rightarrow> world \<Rightarrow> (error + unit) \<times> world" where
  "Modem_listenForChanges R m w =
     listen R (m_bus m) (m_path m) ''org.ofono.Modem'' [''PropertyChanged''] w"

definition Modem_new :: "remote \<Rightarrow> string \<Rightarrow> (string \<Rightarrow> jsval) \<Rightarrow> message_bus \<Rightarrow> world \<Rightarrow> modem \<times> world" where
  "Modem_new R path data bus w =
     (let m = \<lparr>m_path = path, m_bus = bus,
               m_online = data ''online'',
               m_powered = data ''powered'',
               m_lockdown = data ''lockdown'',
               m_emergency = nullish (data ''emergency'') Null,
               m_name = nullish (data ''name'') Null,
               m_serial = nullish (data ''serial'') Null,
               m_manufacturer = nullish (data ''manufacturer'') Null,
               m_model = nullish (data ''model'') Null,
               m_revision = nullish (data ''revision'') Null,
               m_interfaces = data ''interfaces'',
               m_type = data ''type''\<rparr>
      in (m, snd (Modem_listenForChanges R m w)))"

definition Modem_data :: "variant_map \<Rightarrow> error + (string \<Rightarrow> jsval)" where
  "Modem_data props =
     bindE (member_value props ''Online'') (\<lambda>online.
     bindE (member_value props ''Powered'') (\<lambda>powered.
     bindE (member_value props ''Lockdown'') (\<lambda>lockdown.
     bindE (member_value props ''Interfaces'') (\<lambda>interfaces.
     bindE (member_value props ''Type'') (\<lambda>type.
       Inr ((\<lambda>_. Undefined)
         (''online'' := online,
          ''powered'' := powered,
          ''lockdown'' := lockdown,
          ''emergency'' := optional_value props ''Emergency'',
          ''name'' := optional_value props ''Name'',
          ''manufacturer'' := optional_value props ''Manufacturer'',
          ''model'' := optional_value props ''Model'',
          ''revision'' := optional_value props ''Revision'',
          ''serial'' := optional_value props ''Serial'',
          ''interfaces'' := interfaces,
          ''type'' := type)))))))"

definition Modem_fromDBusObject :: "remote \<Rightarrow> string \<times> variant_map \<Rightarrow> message_bus option \<Rightarrow> world \<Rightarrow> (error + modem) \<times> world" where
  "Modem_fromDBusObject R data busarg w =
     (let (bus, w1) = defaultBus busarg w in
      case Modem_data (snd data) of
        Inl e \<Rightarrow> (Inl e, w1)
      | Inr d \<Rightarrow> (let (m, w2) = Modem_new R (fst data) d bus w1 in (Inr m, w2)))"

definition Modem_setProperty :: "remote \<Rightarrow> modem \<Rightarrow> string \<Rightarrow> string \<Rightarrow> jsval \<Rightarrow> world \<Rightarrow> (error + unit) \<times> world" where
  "Modem_setProperty R m prop signature val w =
     action R (MethodCall (m_bus m) (m_path m) ''org.ofono.Modem'' ''SetProperty''
                 [Str prop, Variant signature val]) w"

text \<open>The setters store the value and start \<open>setProperty\<close> without awaiting it.\<close>

definition Modem_set_online :: "remote \<Rightarrow> bool \<Rightarrow> modem \<Rightarrow> world \<Rightarrow> modem \<times> world" where
  "Modem_set_online R v m w =
     (let m' = m\<lparr>m_online := Bool v\<rparr>
      in (m', snd (Modem_setProperty R m' ''Online'' ''b'' (Bool v) w)))"

definition Modem_set_powered :: "remote \<Rightarrow> bool \<Rightarrow> modem \<Rightarrow> world \<Rightarrow> modem \<times> world" where
  "Modem_set_powered R v m w =
     (let m' = m\<lparr>m_powered := Bool v\<rparr>
      in (m', snd (Modem_setProperty R m' ''Powered'' ''b'' (Bool v) w)))"

definition Modem_set_lockdown :: "remote \<Rightarrow> bool \<Rightarrow> modem \<Rightarrow> world \<Rightarrow> modem \<times> world" where
  "Modem_set_lockdown R v m w =
     (let m' = m\<lparr>m_lockdown := Bool v\<rparr>
      in (m', snd (Modem_setProperty R m' ''Lockdown'' ''b'' (Bool v) w)))"

section \<open>NetworkRegistration (src/unnamed/part_001, first file)\<close>

definition NetworkRegistrationMode :: "(string \<times> string) list" where
  "NetworkRegistrationMode =
     [(''Auto'', ''auto''), (''AutoOnly'', ''auto-only''), (''Manual'', ''manual'')]"

definition NetworkRegistrationStatus :: "(string \<times> string) list" where
  "NetworkRegistrationStatus =
     [(''Unregistered'', ''unregistered''), (''Registered'', ''registered''),
      (''Searching'', ''searching''), (''Denied'', ''denied''), (''Unknown'', ''unknown''),
      (''Roaming'', ''roaming'')]"

record network_registration =
  nr_path :: string
  nr_bus :: message_bus
  nr_mode :: jsval
  nr_status :: jsval
  nr_locationAreaCode :: jsval
  nr_cellID :: jsval
  nr_mobileCountryCode :: jsval
  nr_mobileNetworkCode :: jsval
  nr_technology :: jsval
  nr_name :: jsval
  nr_strength :: jsval
  nr_baseStation :: jsval

text \<open>The default case of this handler ends in \<open>break\<close>, so it goes on to
  \<open>this.emit('change')\<close> like the others.\<close>

definition NetworkRegistration_PropertyChanged :: "string \<Rightarrow> jsval \<Rightarrow> network_registration \<Rightarrow> network_registration \<times> event list" where
  "NetworkRegistration_PropertyChanged prop v n =
     (if prop = ''Mode'' then (n\<lparr>nr_mode := v\<rparr>, [Change])
      else if prop = ''Status'' then (n\<lparr>nr_status := v\<rparr>, [Change])
      else if prop = ''LocationAreaCode'' then (n\<lparr>nr_locationAreaCode := v\<rparr>, [Change])
      else if prop = ''CellId'' then (n\<lparr>nr_cellID := v\<rparr>, [Change])
      else if prop = ''MobileCountryCode'' then (n\<lparr>nr_mobileCountryCode := v\<rparr>, [Change])
      else if prop = ''MobileNetworkCode'' then (n\<lparr>nr_mobileNetworkCode := v\<rparr>, [Change])
      else if prop = ''Technology'' then (n\<lparr>nr_technology := v\<rparr>, [Change])
      else if prop = ''Name'' then (n\<lparr>nr_name := v\<rparr>, [Change])
      else if prop = ''Strength'' then (n\<lparr>nr_strength := v\<rparr>, [Change])
      else if prop = ''BaseStation'' then (n\<lparr>nr_baseStation := v\<rparr>, [Change])
      else (n, [Change]))"

definition NetworkRegistration_listenForChanges :: "remote \<Rightarrow> network_registration \<Rightarrow> world \<Rightarrow> (error + unit) \<times> world" where
  "NetworkRegistration_listenForChanges R n w =
     listen R (nr_bus n) (nr_path n) ''org.ofono.NetworkRegistration'' [''PropertyChanged''] w"

definition constructTechnology :: "jsval \<Rightarrow> error + jsval" where
  "constructTechnology t =
     bindE (js_includes t ''gsm'') (\<lambda>gsm.
     bindE (js_includes t ''edge'') (\<lambda>edge.
     bindE (js_includes t ''umts'') (\<lambda>umts.
     bindE (js_includes t ''hspa'') (\<lambda>hspa.
     bindE (js_includes t ''lte'') (\<lambda>lte.
       Inr (Flags [(''GSM'', gsm), (''EDGE'', edge), (''UMTS'', umts), (''HSPA'', hspa),
                   (''LTE'', lte)]))))))"

text \<open>This constructor can throw, in \<open>constructTechnology\<close>, before it reaches
  \<open>listenForChanges\<close>.\<close>

definition NetworkRegistration_new :: "remote \<Rightarrow> string \<Rightarrow> (string \<Rightarrow> jsval) \<Rightarrow> message_bus \<Rightarrow> world \<Rightarrow> (error + network_registration) \<times> world" where
  "NetworkRegistration_new R path data bus w =
     (case (if truthy (data ''technology'') then constructTechnology (data ''technology'')
            else Inr Null) of
        Inl e \<Rightarrow> (Inl e, w)
      | Inr technology \<Rightarrow>
          (let n = \<lparr>nr_path = path, nr_bus = bus,
                    nr_mode = enum_index NetworkRegistrationMode (data ''mode''),
                    nr_status = enum_index NetworkRegistrationStatus (data ''status''),
                    nr_locationAreaCode = nullish (data ''locationAreaCode'') Null,
                    nr_cellID = nullish (data ''cellID'') Null,
                    nr_mobileCountryCode = nullish (data ''mobileCountryCode'') Null,
                    nr_mobileNetworkCode = nullish (data ''mobileNetworkCode'') Null,
                    nr_technology = technology,
                    nr_name = data ''name'',
                    nr_strength = nullish (data ''strength'') Null,
                    nr_baseStation = nullish (data ''baseStation'') Null\<rparr>
           in (Inr n, snd (NetworkRegistration_listenForChanges R n w))))"

definition NetworkRegistration_data :: "variant_map \<Rightarrow> error + (string \<Rightarrow> jsval)" where
  "NetworkRegistration_data props =
     bindE (member_value props ''Mode'') (\<lambda>mode.
     bindE (member_value props ''Status'') (\<lambda>status.
     bindE (member_value props ''Name'') (\<lambda>name.
       Inr ((\<lambda>_. Undefined)
         (''mode'' := mode,
          ''status'' := status,
          ''locationAreaCode'' := optional_value props ''LocationAreaCode'',
          ''cellID'' := optional_value props ''CellId'',
          ''mobileCountryCode'' := optional_value props ''MobileCountryCode'',
          ''mobileNetworkCode'' := optional_value props ''MobileNetworkCode'',
          ''technology'' := optional_value props ''Technology'',
          ''name'' := name,
          ''strength'' := optional_value props ''Strength'',
          ''baseStation'' := optional_value props ''BaseStation'')))))"

definition NetworkRegistration_ofModem :: "remote \<Rightarrow> modem \<Rightarrow> world \<Rightarrow> (error + network_registration) \<times> world" where
  "NetworkRegistration_ofModem R m w =
     (case indexOf_is_minus1 (m_interfaces m) ''org.ofono.NetworkRegistration'' of
        Inl e \<Rightarrow> (Inl e, w)
      | Inr True \<Rightarrow>
          (Inl (Error (''node-ofono: Network.ofModem(): Modem '' @ m_path m @
                       '' does not support NetworkRegistration interface'')), w)
      | Inr False \<Rightarrow>
          (case call R (MethodCall (m_bus m) (m_path m) ''org.ofono.NetworkRegistration''
                          ''GetProperties'' []) w of
             (Inl e, w1) \<Rightarrow> (Inl e, w1)
           | (Inr (Props props), w1) \<Rightarrow>
               (case NetworkRegistration_data props of
                  Inl e \<Rightarrow> (Inl e, w1)
                | Inr d \<Rightarrow> NetworkRegistration_new R (m_path m) d (m_bus m) w1)
           | (Inr _, w1) \<Rightarrow> (Inl TypeError, w1)))"

section \<open>Handsfree (src/unnamed/part_003, second file)\<close>

record handsfree =
  hf_path :: string
  hf_bus :: message_bus
  hf_features :: jsval
  hf_inbandRinging :: jsval
  hf_voiceRecognition :: jsval
  hf_echoCancellingNoiseReduction :: jsval
  hf_batteryChargeLevel :: jsval
  hf_subscriberNumbers :: jsval
  hf_distractedDrivingReduction :: jsval

definition Handsfree_PropertyChanged :: "string \<Rightarrow> jsval \<Rightarrow> handsfree \<Rightarrow> handsfree \<times> event list" where
  "Handsfree_PropertyChanged prop v h =
     (if prop = ''Features'' then (h\<lparr>hf_features := v\<rparr>, [Change])
      else if prop = ''InbandRinging'' then (h\<lparr>hf_inbandRinging := v\<rparr>, [Change])
      else if prop = ''VoiceRecognition'' then (h\<lparr>hf_voiceRecognition := v\<rparr>, [Change])
      else if prop = ''EchoCancellingNoiseReduction''
        then (h\<lparr>hf_echoCancellingNoiseReduction := v\<rparr>, [Change])
      else if prop = ''BatteryChargeLevel'' then (h\<lparr>hf_batteryChargeLevel := v\<rparr>, [Change])
      else if prop = ''SubscriberNumbers'' then (h\<lparr>hf_subscriberNumbers := v\<rparr>, [Change])
      else if prop = ''DistractedDrivingReduction''
        then (h\<lparr>hf_distractedDrivingReduction := v\<rparr>, [Change])
      else (h, []))"

definition Handsfree_listenForChanges :: "remote \<Rightarrow> handsfree \<Rightarrow> world \<Rightarrow> (error + unit) \<times> world" where
  "Handsfree_listenForChanges R h w =
     listen R (hf_bus h) (hf_path h) ''org.ofono.Handsfree'' [''PropertyChanged''] w"

definition constructFeatures :: "jsval \<Rightarrow> error + jsval" where
  "constructFeatures f =
     bindE (js_includes f ''voice-recognition'') (\<lambda>b1.
     bindE (js_includes f ''attach-voice-tag'') (\<lambda>b2.
     bindE (js_includes f ''echo-canceling-and-noise-reduction'') (\<lambda>b3.
     bindE (js_includes f ''three-way-calling'') (\<lambda>b4.
     bindE (js_includes f ''release-all-held'') (\<lambda>b5.
     bindE (js_includes f ''release-specified-active-call'') (\<lambda>b6.
     bindE (js_includes f ''private-chat'') (\<lambda>b7.
     bindE (js_includes f ''create-multiparty'') (\<lambda>b8.
     bindE (js_includes f ''transfer'') (\<lambda>b9.
     bindE (js_includes f ''hf-indicators'') (\<lambda>b10.
       Inr (Flags [(''VoiceRecognition'', b1), (''AttachVoiceTag'', b2),
                   (''EchoCancellingAndNoiseReduction'', b3), (''ThreeWayCalling'', b4),
                   (''ReleaseAllHeld'', b5), (''ReleaseSpecifiedActiveCall'', b6),
                   (''PrivateChat'', b7), (''CreateMultiparty'', b8), (''Transfer'', b9),
                   (''HfIndicators'', b10)])))))))))))"

definition Handsfree_new :: "remote \<Rightarrow> string \<Rightarrow> (string \<Rightarrow> jsval) \<Rightarrow> message_bus \<Rightarrow> world \<Rightarrow> (error + handsfree) \<times> world" where
  "Handsfree_new R path data bus w =
     (case constructFeatures (data ''features'') of
        Inl e \<Rightarrow> (Inl e, w)
      | Inr features \<Rightarrow>
          (let h = \<lparr>hf_path = path, hf_bus = bus,
                    hf_features = features,
                    hf_inbandRinging = data ''inbandRinging'',
                    hf_voiceRecognition = data ''voiceRecognition'',
                    hf_echoCancellingNoiseReduction =
                      nullish (data ''echoCancellingNoiseReduction'') Null,
                    hf_batteryChargeLevel = data ''batteryChargeLevel'',
                    hf_subscriberNumbers = data ''subscriberNumbers'',
                    hf_distractedDrivingReduction =
                      nullish (data ''distractedDrivingReduction'') Null\<rparr>
           in (Inr h, snd (Handsfree_listenForChanges R h w))))"

definition Handsfree_data :: "variant_map \<Rightarrow> error + (string \<Rightarrow> jsval)" where
  "Handsfree_data props =
     bindE (member_value props ''Features'') (\<lambda>features.
     bindE (member_value props ''InbandRinging'') (\<lambda>inbandRinging.
     bindE (member_value props ''VoiceRecognition'') (\<lambda>voiceRecognition.
     bindE (member_value props ''BatteryChargeLevel'') (\<lambda>batteryChargeLevel.
     bindE (member_value props ''SubscriberNumbers'') (\<lambda>subscriberNumbers.
       Inr ((\<lambda>_. Undefined)
         (''features'' := features,
          ''inbandRinging'' := inbandRinging,
          ''voiceRecognition'' := voiceRecognition,
          ''echoCancellingNoiseReduction'' := optional_value props ''EchoCancellingNoiseReduction'',
          ''batteryChargeLevel'' := batteryChargeLevel,
          ''subscriberNumbers'' := subscriberNumbers,
          ''distractedDrivingReduction'' := optional_value props ''DistractedDrivingReduction'')))))))"

definition Handsfree_ofModem :: "remote \<Rightarrow> modem \<Rightarrow> world \<Rightarrow> (error + handsfree) \<times> world" where
  "Handsfree_ofModem R m w =
     (case indexOf_is_minus1 (m_interfaces m) ''org.ofono.Handsfree'' of
        Inl e \<Rightarrow> (Inl e, w)
      | Inr True \<Rightarrow>
          (Inl (Error (''node-ofono: Handsfree.ofModem(): Modem '' @ m_path m @
                       '' does not support Handsfree interface'')), w)
      | Inr False \<Rightarrow>
          (case call R (MethodCall (m_bus m) (m_path m) ''org.ofono.Handsfree''
                          ''GetProperties'' []) w of
             (Inl e, w1) \<Rightarrow> (Inl e, w1)
           | (Inr (Props props), w1) \<Rightarrow>
               (case Handsfree_data props of
                  Inl e \<Rightarrow> (Inl e, w1)
                | Inr d \<Rightarrow> Handsfree_new R (m_path m) d (m_bus m) w1)
           | (Inr _, w1) \<Rightarrow> (Inl TypeError, w1)))"

definition Handsfree_setProperty :: "remote \<Rightarrow> handsfree \<Rightarrow> string \<Rightarrow> string \<Rightarrow> jsval \<Rightarrow> world \<Rightarrow> (error + unit) \<times> world" where
  "Handsfree_setProperty R h prop signature val w =
     action R (MethodCall (hf_bus h) (hf_path h) ''org.ofono.Handsfree'' ''SetProperty''
                 [Str prop, Variant signature val]) w"

text \<open>A setter argument of type \<open>boolean | null\<close>.\<close>

definition boolean_or_null :: "bool option \<Rightarrow> jsval" where
  "boolean_or_null v = (case v of None \<Rightarrow> Null | Some b \<Rightarrow> Bool b)"

definition Handsfree_set_voiceRecognition :: "remote \<Rightarrow> bool \<Rightarrow> handsfree \<Rightarrow> world \<Rightarrow> handsfree \<times> world" where
  "Handsfree_set_voiceRecognition R v h w =
     (let h' = h\<lparr>hf_voiceRecognition := Bool v\<rparr>
      in (h', snd (Handsfree_setProperty R h' ''VoiceRecognition'' ''b'' (Bool v) w)))"

definition Handsfree_set_echoCancellingNoiseReduction :: "remote \<Rightarrow> bool option \<Rightarrow> handsfree \<Rightarrow> world \<Rightarrow> handsfree \<times> world" where
  "Handsfree_set_echoCancellingNoiseReduction R v h w =
     (let h' = h\<lparr>hf_echoCancellingNoiseReduction := boolean_or_null v\<rparr>
      in (h', snd (Handsfree_setProperty R h' ''EchoCancellingNoiseReduction'' ''b''
                     (boolean_or_null v) w)))"

definition Handsfree_set_distractedDrivingReduction :: "remote \<Rightarrow> bool option \<Rightarrow> handsfree \<Rightarrow> world \<Rightarrow> handsfree \<times> world" where
  "Handsfree_set_distractedDrivingReduction R v h w =
     (let h' = h\<lparr>hf_distractedDrivingReduction := boolean_or_null v\<rparr>
      in (h', snd (Handsfree_setProperty R h' ''DistractedDrivingReduction'' ''b''
                     (boolean_or_null v) w)))"

section \<open>VoiceCallManager (src/unnamed/part_001, third file)\<close>

record voicecallmanager =
  vcm_path :: string
  vcm_bus :: message_bus
  vcm_emergencyNumbers :: jsval

text \<open>This handler has no \<open>emit\<close> after its \<open>switch\<close>.\<close>

definition VoiceCallManager_PropertyChanged :: "string \<Rightarrow> jsval \<Rightarrow> voicecallmanager \<Rightarrow> voicecallmanager \<times> event list" where
  "VoiceCallManager_PropertyChanged prop v g =
     (if prop = ''EmergencyNumbers'' then (g\<lparr>vcm_emergencyNumbers := v\<rparr>, [])
      else (g, []))"

definition VoiceCallManager_listenForChanges :: "remote \<Rightarrow> voicecallmanager \<Rightarrow> world \<Rightarrow> (error + unit) \<times> world" where
  "VoiceCallManager_listenForChanges R g w =
     listen R (vcm_bus g) (vcm_path g) ''org.ofono.VoiceCallManager''
       [''CallAdded'', ''CallRemoved'', ''BarringActive'', ''Forwarded'', ''PropertyChanged''] w"

definition VoiceCallManager_new :: "remote \<Rightarrow> string \<Rightarrow> (string \<Rightarrow> jsval) \<Rightarrow> message_bus \<Rightarrow> world \<Rightarrow> voicecallmanager \<times> world" where
  "VoiceCallManager_new R path data bus w =
     (let g = \<lparr>vcm_path = path, vcm_bus = bus,
               vcm_emergencyNumbers = data ''emergencyNumbers''\<rparr>
      in (g, snd (VoiceCallManager_listenForChanges R g w)))"

definition VoiceCallManager_ofModem :: "remote \<Rightarrow> modem \<Rightarrow> world \<Rightarrow> (error + voicecallmanager) \<times> world" where
  "VoiceCallManager_ofModem R m w =
     (case indexOf_is_minus1 (m_interfaces m) ''org.ofono.VoiceCallManager'' of
        Inl e \<Rightarrow> (Inl e, w)
      | Inr True \<Rightarrow>
          (Inl (Error (''node-ofono: VoiceCallManager.ofModem(): Modem '' @ m_path m @
                       '' does not support VoiceCallManager interface'')), w)
      | Inr False \<Rightarrow>
          (case call R (MethodCall (m_bus m) (m_path m) ''org.ofono.VoiceCallManager''
                          ''GetProperties'' []) w of
             (Inl e, w1) \<Rightarrow> (Inl e, w1)
           | (Inr (Props props), w1) \<Rightarrow>
               (case member_value props ''EmergencyNumbers'' of
                  Inl e \<Rightarrow> (Inl e, w1)
                | Inr numbers \<Rightarrow>
                    (let (g, w2) = VoiceCallManager_new R (m_path m)
                                     ((\<lambda>_. Undefined)(''emergencyNumbers'' := numbers))
                                     (m_bus m) w1
                     in (Inr g, w2)))
           | (Inr _, w1) \<Rightarrow> (Inl TypeError, w1)))"

text \<open>\<open>calls.map((c) => VoiceCall.fromDBusObject(c, this.bus))\<close>: the first element
  that throws ends the map.\<close>

fun fromDBusObjects :: "remote \<Rightarrow> message_bus \<Rightarrow> (string \<times> variant_map) list \<Rightarrow> world \<Rightarrow> (error + voicecall list) \<times> world" where
  "fromDBusObjects R bus [] w = (Inr [], w)"
| "fromDBusObjects R bus (c # cs) w =
     (case VoiceCall_fromDBusObject R c (Some bus) w of
        (Inl e, w1) \<Rightarrow> (Inl e, w1)
      | (Inr x, w1) \<Rightarrow>
          (case fromDBusObjects R bus cs w1 of
             (Inl e, w2) \<Rightarrow> (Inl e, w2)
           | (Inr xs, w2) \<Rightarrow> (Inr (x # xs), w2)))"

definition VoiceCallManager_getCalls :: "remote \<Rightarrow> voicecallmanager \<Rightarrow> world \<Rightarrow> (error + voicecall list) \<times> world" where
  "VoiceCallManager_getCalls R g w =
     (case call R (MethodCall (vcm_bus g) (vcm_path g) ''org.ofono.VoiceCallManager''
                     ''GetCalls'' []) w of
        (Inl e, w1) \<Rightarrow> (Inl e, w1)
      | (Inr (Objects calls), w1) \<Rightarrow> fromDBusObjects R (vcm_bus g) calls w1
      | (Inr _, w1) \<Rightarrow> (Inl TypeError, w1))"

definition VoiceCallManager_dial :: "remote \<Rightarrow> voicecallmanager \<Rightarrow> string \<Rightarrow> bool option \<Rightarrow> world \<Rightarrow> (error + voicecall) \<times> world" where
  "VoiceCallManager_dial R g number hideCallerID w =
     (case call R (MethodCall (vcm_bus g) (vcm_path g) ''org.ofono.VoiceCallManager'' ''Dial''
                     [Str number,
                      Str (case hideCallerID of None \<Rightarrow> ''default''
                           | Some True \<Rightarrow> ''enabled'' | Some False \<Rightarrow> ''disabled'')]) w of
        (Inl e, w1) \<Rightarrow> (Inl e, w1)
      | (Inr (Path path), w1) \<Rightarrow> VoiceCall_fromPath R path None w1
      | (Inr _, w1) \<Rightarrow> (Inl TypeError, snd (systemBus w1)))"

definition VoiceCallManager_transfer :: "remote \<Rightarrow> voicecallmanager \<Rightarrow> world \<Rightarrow> (error + unit) \<times> world" where
  "VoiceCallManager_transfer R g w =
     action R (MethodCall (vcm_bus g) (vcm_path g) ''org.ofono.VoiceCallManager'' ''Transfer'' []) w"

definition VoiceCallManager_swapCalls :: "remote \<Rightarrow> voicecallmanager \<Rightarrow> world \<Rightarrow> (error + unit) \<times> world" where
  "VoiceCallManager_swapCalls R g w =
     action R (MethodCall (vcm_bus g) (vcm_path g) ''org.ofono.VoiceCallManager'' ''Transfer'' []) w"

text \<open>
  \<open>Promise.all(calls.map((c) => VoiceCall.fromPath(c, this.bus)))\<close>: every
  \<open>fromPath\<close> runs, and the whole fails when one of them does. The model runs them in
  the order of the list.
\<close>

fun fromPaths :: "remote \<Rightarrow> message_bus \<Rightarrow> string list \<Rightarrow> world \<Rightarrow> (error + voicecall list) \<times> world" where
  "fromPaths R bus [] w = (Inr [], w)"
| "fromPaths R bus (c # cs) w =
     (let (r, w1) = VoiceCall_fromPath R c (Some bus) w;
          (rs, w2) = fromPaths R bus cs w1
      in (bindE r (\<lambda>x. bindE rs (\<lambda>xs. Inr (x # xs))), w2))"

definition VoiceCallManager_privateChat :: "remote \<Rightarrow> voicecallmanager \<Rightarrow> string \<Rightarrow> world \<Rightarrow> (error + voicecall list) \<times> world" where
  "VoiceCallManager_privateChat R g path w =
     (case call R (MethodCall (vcm_bus g) (vcm_path g) ''org.ofono.VoiceCallManager''
                     ''PrivateChat'' [Str path]) w of
        (Inl e, w1) \<Rightarrow> (Inl e, w1)
      | (Inr (Paths calls), w1) \<Rightarrow> fromPaths R (vcm_bus g) calls w1
      | (Inr _, w1) \<Rightarrow> (Inl TypeError, w1))"

definition VoiceCallManager_createMultiparty :: "remote \<Rightarrow> voicecallmanager \<Rightarrow> world \<Rightarrow> (error + voicecall list) \<times> world" where
  "VoiceCallManager_createMultiparty R g w =
     (case call R (MethodCall (vcm_bus g) (vcm_path g) ''org.ofono.VoiceCallManager''
                     ''CreateMultiparty'' []) w of
        (Inl e, w1) \<Rightarrow> (Inl e, w1)
      | (Inr (Paths calls), w1) \<Rightarrow> fromPaths R (vcm_bus g) calls w1
      | (Inr _, w1) \<Rightarrow> (Inl TypeError, w1))"

text \<open>
  \<open>/^[0-9a-d*#]*$/i.test(tones)\<close>. The class is the ranges \<open>0-9\<close> and \<open>a-d\<close> and the
  characters \<open>*\<close> and \<open>#\<close>; under the \<open>i\<close> flag a character matches when its canonical
  form is that of a member, the canonical form of an ASCII letter being its upper case
  (a character from 128 up is never folded onto an ASCII one; the model leaves it as
  it is). Between \<open>^\<close> and \<open>$\<close>, with no \<open>m\<close> flag, the starred class has to match the
  whole string.
\<close>

definition canonicalize :: "char \<Rightarrow> char" where
  "canonicalize c =
     (if (97::nat) \<le> of_char c \<and> of_char c \<le> (122::nat) then char_of (of_char c - (32::nat)) else c)"

definition tone_class :: "char list" where
  "tone_class = ''0123456789abcd*#''"

definition class_matches :: "char \<Rightarrow> bool" where
  "class_matches c = (canonicalize c \<in> set (map canonicalize tone_class))"

definition tones_test :: "string \<Rightarrow> bool" where
  "tones_test tones = list_all class_matches tones"

definition VoiceCallManager_sendTones :: "remote \<Rightarrow> voicecallmanager \<Rightarrow> string \<Rightarrow> world \<Rightarrow> (error + unit) \<times> world" where
  "VoiceCallManager_sendTones R g tones w =
     (if \<not> tones_test tones
      then (Inl (Error ''node-ofono: VoiceCallManager: sendTones(): invalid tone(s)''), w)
      else action R (MethodCall (vcm_bus g) (vcm_path g) ''org.ofono.VoiceCallManager''
                       ''SendTones'' [Str tones]) w)"

section \<open>Ofono (src/unnamed/part_003, first file)\<close>

record ofono =
  o_bus :: message_bus

datatype ofono_event = Add string modem | Remove string

definition Ofono_listenForChanges :: "remote \<Rightarrow> ofono \<Rightarrow> world \<Rightarrow> (error + unit) \<times> world" where
  "Ofono_listenForChanges R this w =
     listen R (o_bus this) ''/'' ''org.ofono.Manager'' [''ModemAdded'', ''ModemRemoved''] w"

definition Ofono_new :: "remote \<Rightarrow> message_bus option \<Rightarrow> world \<Rightarrow> ofono \<times> world" where
  "Ofono_new R busarg w =
     (let (bus, w1) = defaultBus busarg w;
          this = \<lparr>o_bus = bus\<rparr>
      in (this, snd (Ofono_listenForChanges R this w1)))"

fun modems_fromDBusObjects :: "remote \<Rightarrow> message_bus \<Rightarrow> (string \<times> variant_map) list \<Rightarrow> world \<Rightarrow> (error + modem list) \<times> world" where
  "modems_fromDBusObjects R bus [] w = (Inr [], w)"
| "modems_fromDBusObjects R bus (m # ms) w =
     (case Modem_fromDBusObject R m (Some bus) w of
        (Inl e, w1) \<Rightarrow> (Inl e, w1)
      | (Inr x, w1) \<Rightarrow>
          (case modems_fromDBusObjects R bus ms w1 of
             (Inl e, w2) \<Rightarrow> (Inl e, w2)
           | (Inr xs, w2) \<Rightarrow> (Inr (x # xs), w2)))"

definition Ofono_getModems :: "remote \<Rightarrow> ofono \<Rightarrow> world \<Rightarrow> (error + modem list) \<times> world" where
  "Ofono_getModems R this w =
     (case call R (MethodCall (o_bus this) ''/'' ''org.ofono.Manager'' ''GetModems'' []) w of
        (Inl e, w1) \<Rightarrow> (Inl e, w1)
      | (Inr (Objects modems), w1) \<Rightarrow> modems_fromDBusObjects R (o_bus this) modems w1
      | (Inr _, w1) \<Rightarrow> (Inl TypeError, w1))"

text \<open>The handlers of \<open>ModemAdded\<close> and \<open>ModemRemoved\<close>. The first takes its
  second argument as its parameter is typed, a path with a property map, and calls
  \<open>Modem.fromDBusObject(modem)\<close> with that one argument.\<close>

definition Ofono_ModemAdded :: "remote \<Rightarrow> ofono \<Rightarrow> string \<Rightarrow> string \<times> variant_map \<Rightarrow> world \<Rightarrow> (error + ofono_event list) \<times> world" where
  "Ofono_ModemAdded R this path modem w =
     (case Modem_fromDBusObject R modem None w of
        (Inl e, w1) \<Rightarrow> (Inl e, w1)
      | (Inr m, w1) \<Rightarrow> (Inr [Add path m], w1))"

definition Ofono_ModemRemoved :: "ofono \<Rightarrow> string \<Rightarrow> ofono_event list" where
  "Ofono_ModemRemoved this path = [Remove path]"

section \<open>Reading a snapshot by property name\<close>

text \<open>
  Each mirror has one getter per property that its handler knows. The functions below
  give the getter's value under the name the bus uses for the property, and \<open>None\<close>
  for a name the mirror has no getter for.
\<close>

definition Modem_property :: "string \<Rightarrow> modem \<Rightarrow> jsval option" where
  "Modem_property q m =
     map_of [(''Online'', m_online m), (''Powered'', m_powered m), (''Lockdown'', m_lockdown m),
             (''Emergency'', m_emergency m), (''Name'', m_name m),
             (''Manufacturer'', m_manufacturer m), (''Model'', m_model m),
             (''Revision'', m_revision m), (''Serial'', m_serial m),
             (''Interfaces'', m_interfaces m), (''Type'', m_type m)] q"

definition VoiceCall_property :: "string \<Rightarrow> voicecall \<Rightarrow> jsval option" where
  "VoiceCall_property q c =
     map_of [(''LineIdentification'', vc_lineIdentification c),
             (''IncomingLine'', vc_incomingLine c), (''Name'', vc_name c),
             (''Multiparty'', vc_multiparty c), (''State'', vc_state c),
             (''StartTime'', vc_startTime c), (''Information'', vc_information c),
             (''Icon'', vc_icon c), (''Emergency'', vc_emergency c),
             (''RemoteHeld'', vc_remoteHeld c),
             (''RemoteMultiparty'', vc_remoteMultiparty c)] q"

definition NetworkRegistration_property :: "string \<Rightarrow> network_registration \<Rightarrow> jsval option" where
  "NetworkRegistration_property q n =
     map_of [(''Mode'', nr_mode n), (''Status'', nr_status n),
             (''LocationAreaCode'', nr_locationAreaCode n), (''CellId'', nr_cellID n),
             (''MobileCountryCode'', nr_mobileCountryCode n),
             (''MobileNetworkCode'', nr_mobileNetworkCode n),
             (''Technology'', nr_technology n), (''Name'', nr_name n),
             (''Strength'', nr_strength n), (''BaseStation'', nr_baseStation n)] q"

definition Handsfree_property :: "string \<Rightarrow> handsfree \<Rightarrow> jsval option" where
  "Handsfree_property q h =
     map_of [(''Features'', hf_features h), (''InbandRinging'', hf_inbandRinging h),
             (''VoiceRecognition'', hf_voiceRecognition h),
             (''EchoCancellingNoiseReduction'', hf_echoCancellingNoiseReduction h),
             (''BatteryChargeLevel'', hf_batteryChargeLevel h),
             (''SubscriberNumbers'', hf_subscriberNumbers h),
             (''DistractedDrivingReduction'', hf_distractedDrivingReduction h)] q"

definition VoiceCallManager_property :: "string \<Rightarrow> voicecallmanager \<Rightarrow> jsval option" where
  "VoiceCallManager_property q g = map_of [(''EmergencyNumbers'', vcm_emergencyNumbers g)] q"

text \<open>What the handler of a voice call stores for a notification \<open>(p, v)\<close>: the value
  itself, except for \<open>State\<close>.\<close>

definition VoiceCall_stored :: "string \<Rightarrow> jsval \<Rightarrow> jsval" where
  "VoiceCall_stored p v = (if p = ''State'' then enum_index VoiceCallState v else v)"

text \<open>A sequence of notifications, handled in the order of arrival.\<close>

fun Modem_notify :: "(string \<times> jsval) list \<Rightarrow> modem \<Rightarrow> modem" where
  "Modem_notify [] m = m"
| "Modem_notify (n # ns) m = Modem_notify ns (fst (Modem_PropertyChanged (fst n) (snd n) m))"

fun VoiceCall_notify :: "(string \<times> jsval) list \<Rightarrow> voicecall \<Rightarrow> voicecall" where
  "VoiceCall_notify [] c = c"
| "VoiceCall_notify (n # ns) c =
     VoiceCall_notify ns (fst (VoiceCall_PropertyChanged (fst n) (snd n) c))"

fun NetworkRegistration_notify :: "(string \<times> jsval) list \<Rightarrow> network_registration \<Rightarrow> network_registration" where
  "NetworkRegistration_notify [] r = r"
| "NetworkRegistration_notify (n # ns) r =
     NetworkRegistration_notify ns (fst (NetworkRegistration_PropertyChanged (fst n) (snd n) r))"

fun Handsfree_notify :: "(string \<times> jsval) list \<Rightarrow> handsfree \<Rightarrow> handsfree" where
  "Handsfree_notify [] h = h"
| "Handsfree_notify (n # ns) h =
     Handsfree_notify ns (fst (Handsfree_PropertyChanged (fst n) (snd n) h))"

fun VoiceCallManager_notify :: "(string \<times> jsval) list \<Rightarrow> voicecallmanager \<Rightarrow> voicecallmanager" where
  "VoiceCallManager_notify [] g = g"
| "VoiceCallManager_notify (n # ns) g =
     VoiceCallManager_notify ns (fst (VoiceCallManager_PropertyChanged (fst n) (snd n) g))"

text \<open>The value of the last notification in \<open>ns\<close> that names \<open>q\<close>, if there is one.\<close>

definition last_notified :: "(string \<times> jsval) list \<Rightarrow> string \<Rightarrow> jsval option" where
  "last_notified ns q = map_of (rev ns) q"

section \<open>Concrete inputs\<close>

text \<open>
  The properties of a voice call as oFono lists it and of a modem as the specification's
  end-to-end example lists it; the mirror \<open>fromDBusObject\<close> builds of that call on
  connection 0; a modem without telephony interfaces; a call manager; and a network
  registration after the notifications \<open>Mode = auto\<close> and \<open>Status = registered\<close>.
\<close>

definition call_props :: variant_map where
  "call_props =
     [''LineIdentification'' \<mapsto> Str ''5551234567'', ''Name'' \<mapsto> Str [],
      ''Multiparty'' \<mapsto> Bool False, ''State'' \<mapsto> Str ''active'',
      ''Emergency'' \<mapsto> Bool False, ''RemoteHeld'' \<mapsto> Bool False,
      ''RemoteMultiparty'' \<mapsto> Bool False]"

definition modem_props :: variant_map where
  "modem_props =
     [''Online'' \<mapsto> Bool True, ''Powered'' \<mapsto> Bool True, ''Lockdown'' \<mapsto> Bool False,
      ''Interfaces'' \<mapsto> Strs [''org.ofono.VoiceCallManager''], ''Type'' \<mapsto> Str ''hardware'']"

definition listed_call :: voicecall where
  "listed_call =
     \<lparr>vc_path = ''/ril_0/voicecall01'', vc_bus = Connection 0,
      vc_lineIdentification = Str ''5551234567'', vc_incomingLine = Undefined,
      vc_name = Str [], vc_multiparty = Bool False, vc_state = Undefined,
      vc_startTime = Undefined, vc_information = Undefined, vc_icon = Undefined,
      vc_emergency = Bool False, vc_remoteHeld = Bool False,
      vc_remoteMultiparty = Bool False\<rparr>"

definition modem0 :: modem where
  "modem0 =
     \<lparr>m_path = ''/modem0'', m_bus = Connection 0, m_online = Bool True, m_powered = Bool True,
      m_lockdown = Bool False, m_emergency = Null, m_name = Null, m_serial = Null,
      m_manufacturer = Null, m_model = Null, m_revision = Null,
      m_interfaces = Strs [''org.ofono.SimManager''], m_type = Str ''hardware''\<rparr>"

definition manager0 :: voicecallmanager where
  "manager0 = \<lparr>vcm_path = ''/ril_0'', vcm_bus = Connection 0, vcm_emergencyNumbers = Strs [''112'']\<rparr>"

definition registration0 :: network_registration where
  "registration0 =
     \<lparr>nr_path = ''/ril_0'', nr_bus = Connection 0, nr_mode = Str ''auto'',
      nr_status = Str ''registered'',
      nr_locationAreaCode = Null, nr_cellID = Null, nr_mobileCountryCode = Null,
      nr_mobileNetworkCode = Null, nr_technology = Null, nr_name = Str ''Operator'',
      nr_strength = Num 80, nr_baseStation = Null\<rparr>"

text \<open>A world in which one connection is open and nothing has been sent.\<close>

definition world0 :: world where
  "world0 = \<lparr>sent = [], listeners = [], connections = 1\<rparr>"

text \<open>A bus that answers every method call and refuses every subscription, and a bus
  that answers nothing.\<close>

definition deaf_bus :: remote where
  "deaf_bus r =
     (case r of
        MethodCall bus path iface member args \<Rightarrow>
          if member = ''GetProperties'' then Inr (Props call_props)
          else if member = ''Dial'' then Inr (Path ''/ril_0/voicecall01'')
          else Inr Unit
      | Listen bus path iface signals \<Rightarrow> Inl (RemoteFault ''no such interface''))"

definition dead_bus :: remote where
  "dead_bus r = Inl (RemoteFault ''timeout'')"

text \<open>A bus that answers every request.\<close>

definition good_bus :: remote where
  "good_bus r =
     (case r of
        MethodCall bus path iface member args \<Rightarrow>
          if member = ''GetProperties'' then Inr (Props call_props)
          else if member = ''Dial'' then Inr (Path ''/ril_0/voicecall01'')
          else Inr Unit
      | Listen bus path iface signals \<Rightarrow> Inr Unit)"

section \<open>The bus primitives\<close>

lemma sent_action: "sent (snd (action R r w)) = sent w @ [r]"
  by (simp add: action_def call_def split: sum.splits)

lemma connections_listen:
  "connections (snd (listen R bus path iface signals w)) = connections w"
  by (simp add: listen_def call_def split: sum.splits)

lemma listen_refused:
  "R (Listen bus path iface signals) = Inl e \<Longrightarrow>
   listen R bus path iface signals w =
     (Inl e, w\<lparr>sent := sent w @ [Listen bus path iface signals]\<rparr>)"
  by (simp add: listen_def call_def)

lemma listen_accepted:
  "R (Listen bus path iface signals) = Inr x \<Longrightarrow>
   listen R bus path iface signals w =
     (Inr (), w\<lparr>sent := sent w @ [Listen bus path iface signals],
                listeners := listeners w @ map (\<lambda>s. (bus, path, iface, s)) signals\<rparr>)"
  by (simp add: listen_def call_def)

section \<open>The handlers, property by property\<close>

text \<open>A notification changes the getter it names, when the mirror has one, and no
  other.\<close>

lemma Modem_step:
  "Modem_property q (fst (Modem_PropertyChanged p v m)) =
     (if q = p \<and> Modem_property p m \<noteq> None then Some v else Modem_property q m)"
  by (simp add: Modem_PropertyChanged_def Modem_property_def)

lemma VoiceCall_step:
  "VoiceCall_property q (fst (VoiceCall_PropertyChanged p v c)) =
     (if q = p \<and> VoiceCall_property p c \<noteq> None then Some (VoiceCall_stored p v)
      else VoiceCall_property q c)"
  by (simp add: VoiceCall_PropertyChanged_def VoiceCall_property_def VoiceCall_stored_def)

lemma NetworkRegistration_step:
  "NetworkRegistration_property q (fst (NetworkRegistration_PropertyChanged p v n)) =
     (if q = p \<and> NetworkRegistration_property p n \<noteq> None then Some v
      else NetworkRegistration_property q n)"
  by (simp add: NetworkRegistration_PropertyChanged_def NetworkRegistration_property_def)

lemma Handsfree_step:
  "Handsfree_property q (fst (Handsfree_PropertyChanged p v h)) =
     (if q = p \<and> Handsfree_property p h \<noteq> None then Some v else Handsfree_property q h)"
  by (simp add: Handsfree_PropertyChanged_def Handsfree_property_def)

lemma VoiceCallManager_step:
  "VoiceCallManager_property q (fst (VoiceCallManager_PropertyChanged p v g)) =
     (if q = p \<and> VoiceCallManager_property p g \<noteq> None then Some v
      else VoiceCallManager_property q g)"
  by (simp add: VoiceCallManager_PropertyChanged_def VoiceCallManager_property_def)

text \<open>A name the mirror has no getter for: four of the five handlers return before
  the \<open>emit\<close>.\<close>

lemma Modem_unknown_property_ignored:
  "Modem_property p m = None \<Longrightarrow> Modem_PropertyChanged p v m = (m, [])"
  unfolding Modem_property_def map_of_eq_None_iff
  by (simp add: Modem_PropertyChanged_def)

lemma VoiceCall_unknown_property_ignored:
  "VoiceCall_property p c = None \<Longrightarrow> VoiceCall_PropertyChanged p v c = (c, [])"
  unfolding VoiceCall_property_def map_of_eq_None_iff
  by (simp add: VoiceCall_PropertyChanged_def)

lemma Handsfree_unknown_property_ignored:
  "Handsfree_property p h = None \<Longrightarrow> Handsfree_PropertyChanged p v h = (h, [])"
  unfolding Handsfree_property_def map_of_eq_None_iff
  by (simp add: Handsfree_PropertyChanged_def)

lemma VoiceCallManager_unknown_property_ignored:
  "VoiceCallManager_property p g = None \<Longrightarrow> VoiceCallManager_PropertyChanged p v g = (g, [])"
  unfolding VoiceCallManager_property_def map_of_eq_None_iff
  by (simp add: VoiceCallManager_PropertyChanged_def)

text \<open>Sequences of notifications: the last one naming a property decides its getter.
  The getter returns the value notified, except on a voice call, where it returns what
  \<open>VoiceCall_stored\<close> makes of it.\<close>

lemma last_notified_Cons:
  "last_notified (n # ns) q =
     (case last_notified ns q of
        Some x \<Rightarrow> Some x
      | None \<Rightarrow> if q = fst n then Some (snd n) else None)"
  by (cases n) (simp add: last_notified_def map_add_def split: option.splits)

lemma Modem_last_notification_wins:
  "Modem_property q (Modem_notify ns m) =
     (case last_notified ns q of
        Some v \<Rightarrow> if Modem_property q m = None then None else Some v
      | None \<Rightarrow> Modem_property q m)"
proof (induction ns arbitrary: m)
  case Nil
  show ?case by (simp add: last_notified_def)
next
  case (Cons n ns)
  show ?case
    by (simp add: Cons.IH Modem_step last_notified_Cons split: option.splits)
qed

lemma VoiceCall_last_notification_wins:
  "VoiceCall_property q (VoiceCall_notify ns c) =
     (case last_notified ns q of
        Some v \<Rightarrow> if VoiceCall_property q c = None then None else Some (VoiceCall_stored q v)
      | None \<Rightarrow> VoiceCall_property q c)"
proof (induction ns arbitrary: c)
  case Nil
  show ?case by (simp add: last_notified_def)
next
  case (Cons n ns)
  show ?case
    by (simp add: Cons.IH VoiceCall_step last_notified_Cons split: option.splits)
qed

lemma NetworkRegistration_last_notification_wins:
  "NetworkRegistration_property q (NetworkRegistration_notify ns r) =
     (case last_notified ns q of
        Some v \<Rightarrow> if NetworkRegistration_property q r = None then None else Some v
      | None \<Rightarrow> NetworkRegistration_property q r)"
proof (induction ns arbitrary: r)
  case Nil
  show ?case by (simp add: last_notified_def)
next
  case (Cons n ns)
  show ?case
    by (simp add: Cons.IH NetworkRegistration_step last_notified_Cons split: option.splits)
qed

lemma Handsfree_last_notification_wins:
  "Handsfree_property q (Handsfree_notify ns h) =
     (case last_notified ns q of
        Some v \<Rightarrow> if Handsfree_property q h = None then None else Some v
      | None \<Rightarrow> Handsfree_property q h)"
proof (induction ns arbitrary: h)
  case Nil
  show ?case by (simp add: last_notified_def)
next
  case (Cons n ns)
  show ?case
    by (simp add: Cons.IH Handsfree_step last_notified_Cons split: option.splits)
qed

lemma VoiceCallManager_last_notification_wins:
  "VoiceCallManager_property q (VoiceCallManager_notify ns g) =
     (case last_notified ns q of
        Some v \<Rightarrow> if VoiceCallManager_property q g = None then None else Some v
      | None \<Rightarrow> VoiceCallManager_property q g)"
proof (induction ns arbitrary: g)
  case Nil
  show ?case by (simp add: last_notified_def)
next
  case (Cons n ns)
  show ?case
    by (simp add: Cons.IH VoiceCallManager_step last_notified_Cons split: option.splits)
qed

section \<open>Construction\<close>

lemma enum_active: "enum_key VoiceCallState ''active'' = Undefined"
  by (simp add: VoiceCallState_def enum_key_def Object_prototype_def)

lemma VoiceCall_data_call_props:
  "VoiceCall_data call_props =
     Inr ((\<lambda>_. Undefined)
       (''lineIdentification'' := Str ''5551234567'',
        ''incomingLine'' := Undefined,
        ''name'' := Str [],
        ''multiparty'' := Bool False,
        ''state'' := Str ''active'',
        ''startTime'' := Undefined,
        ''information'' := Undefined,
        ''icon'' := Undefined,
        ''emergency'' := Bool False,
        ''remoteHeld'' := Bool False,
        ''remoteMultiparty'' := Bool False))"
  by (simp add: VoiceCall_data_def call_props_def member_value_def optional_value_def bindE_def)

lemma Modem_data_modem_props:
  "Modem_data modem_props =
     Inr ((\<lambda>_. Undefined)
       (''online'' := Bool True,
        ''powered'' := Bool True,
        ''lockdown'' := Bool False,
        ''emergency'' := Undefined,
        ''name'' := Undefined,
        ''manufacturer'' := Undefined,
        ''model'' := Undefined,
        ''revision'' := Undefined,
        ''serial'' := Undefined,
        ''interfaces'' := Strs [''org.ofono.VoiceCallManager''],
        ''type'' := Str ''hardware''))"
  by (simp add: Modem_data_def modem_props_def member_value_def optional_value_def bindE_def)

lemma Modem_fromDBusObject_reads_back:
  assumes "props ''Online'' = Some online" "props ''Powered'' = Some powered"
    "props ''Lockdown'' = Some lockdown" "props ''Interfaces'' = Some interfaces"
    "props ''Type'' = Some type"
  shows "fst (Modem_fromDBusObject R (path, props) busarg w) =
     Inr \<lparr>m_path = path, m_bus = fst (defaultBus busarg w),
          m_online = online, m_powered = powered, m_lockdown = lockdown,
          m_emergency = nullish (optional_value props ''Emergency'') Null,
          m_name = nullish (optional_value props ''Name'') Null,
          m_serial = nullish (optional_value props ''Serial'') Null,
          m_manufacturer = nullish (optional_value props ''Manufacturer'') Null,
          m_model = nullish (optional_value props ''Model'') Null,
          m_revision = nullish (optional_value props ''Revision'') Null,
          m_interfaces = interfaces, m_type = type\<rparr>"
  using assms
  by (simp add: Modem_fromDBusObject_def Modem_data_def member_value_def bindE_def
      Modem_new_def Let_def split: prod.splits)

lemma VoiceCall_fromDBusObject_reads_back:
  assumes "props ''LineIdentification'' = Some lineIdentification" "props ''Name'' = Some name"
    "props ''Multiparty'' = Some multiparty" "props ''State'' = Some state"
    "props ''Emergency'' = Some emergency" "props ''RemoteHeld'' = Some remoteHeld"
    "props ''RemoteMultiparty'' = Some remoteMultiparty"
  shows "fst (VoiceCall_fromDBusObject R (path, props) busarg w) =
     Inr \<lparr>vc_path = path, vc_bus = fst (defaultBus busarg w),
          vc_lineIdentification = lineIdentification,
          vc_incomingLine = optional_value props ''IncomingLine'',
          vc_name = name, vc_multiparty = multiparty,
          vc_state = enum_index VoiceCallState state,
          vc_startTime = optional_value props ''StartTime'',
          vc_information = optional_value props ''Information'',
          vc_icon = optional_value props ''Icon'',
          vc_emergency = emergency, vc_remoteHeld = remoteHeld,
          vc_remoteMultiparty = remoteMultiparty\<rparr>"
  using assms
  by (simp add: VoiceCall_fromDBusObject_def VoiceCall_data_def member_value_def bindE_def
      VoiceCall_new_def Let_def split: prod.splits)

lemma absent_optional_reads_null:
  "props k = None \<Longrightarrow> nullish (optional_value props k) Null = Null"
  by (simp add: optional_value_def nullish_def)

text \<open>Which connection a child is built on, and whether building it opens one.\<close>

lemma connections_Modem_new: "connections (snd (Modem_new R path d bus w)) = connections w"
  by (simp add: Modem_new_def Let_def Modem_listenForChanges_def connections_listen)

lemma connections_VoiceCall_new:
  "connections (snd (VoiceCall_new R path d bus w)) = connections w"
  by (simp add: VoiceCall_new_def Let_def VoiceCall_listenForChanges_def connections_listen)

lemma vc_bus_VoiceCall_new: "vc_bus (fst (VoiceCall_new R path d bus w)) = bus"
  by (simp add: VoiceCall_new_def Let_def)

lemma Modem_new_connections:
  "Modem_new R path d bus w = (x, w') \<Longrightarrow> connections w' = connections w"
  using connections_Modem_new [of R path d bus w] by simp

lemma VoiceCall_new_given_bus:
  "VoiceCall_new R path d bus w = (x, w') \<Longrightarrow>
     connections w' = connections w \<and> vc_bus x = bus"
  using connections_VoiceCall_new [of R path d bus w] vc_bus_VoiceCall_new [of R path d bus w]
  by simp

lemma VoiceCall_fromDBusObject_given_bus:
  "VoiceCall_fromDBusObject R c (Some bus) w = (r, w') \<Longrightarrow>
     connections w' = connections w \<and> (\<forall>x. r = Inr x \<longrightarrow> vc_bus x = bus)"
  by (auto simp: VoiceCall_fromDBusObject_def defaultBus_def
      split: sum.splits prod.splits dest: VoiceCall_new_given_bus)

lemma VoiceCall_fromPath_given_bus:
  "VoiceCall_fromPath R p (Some bus) w = (r, w') \<Longrightarrow>
     connections w' = connections w \<and> (\<forall>x. r = Inr x \<longrightarrow> vc_bus x = bus)"
  by (auto simp: VoiceCall_fromPath_def defaultBus_def call_def
      split: sum.splits prod.splits reply.splits dest: VoiceCall_new_given_bus)

lemma fromDBusObjects_given_bus:
  "fromDBusObjects R bus cs w = (r, w') \<Longrightarrow>
     connections w' = connections w
     \<and> (\<forall>xs. r = Inr xs \<longrightarrow> list_all (\<lambda>x. vc_bus x = bus) xs)"
proof (induction cs arbitrary: w r w')
  case Nil
  then show ?case by auto
next
  case (Cons c cs)
  obtain r1 w1 where h: "VoiceCall_fromDBusObject R c (Some bus) w = (r1, w1)"
    by (cases "VoiceCall_fromDBusObject R c (Some bus) w")
  note h1 = VoiceCall_fromDBusObject_given_bus [OF h]
  show ?case
  proof (cases r1)
    case (Inl e)
    with Cons.prems h h1 show ?thesis by auto
  next
    case (Inr x)
    obtain r2 w2 where t: "fromDBusObjects R bus cs w1 = (r2, w2)"
      by (cases "fromDBusObjects R bus cs w1")
    note t1 = Cons.IH [OF t]
    from Cons.prems h Inr t h1 t1 show ?thesis
      by (auto split: sum.splits)
  qed
qed

lemma fromPaths_given_bus:
  "fromPaths R bus ps w = (r, w') \<Longrightarrow>
     connections w' = connections w
     \<and> (\<forall>xs. r = Inr xs \<longrightarrow> list_all (\<lambda>x. vc_bus x = bus) xs)"
proof (induction ps arbitrary: w r w')
  case Nil
  then show ?case by auto
next
  case (Cons p ps)
  obtain r1 w1 where h: "VoiceCall_fromPath R p (Some bus) w = (r1, w1)"
    by (cases "VoiceCall_fromPath R p (Some bus) w")
  obtain r2 w2 where t: "fromPaths R bus ps w1 = (r2, w2)"
    by (cases "fromPaths R bus ps w1")
  note h1 = VoiceCall_fromPath_given_bus [OF h]
  note t1 = Cons.IH [OF t]
  from Cons.prems h t h1 t1 show ?case
    by (auto simp: bindE_def split: sum.splits)
qed

text \<open>\<open>getCalls\<close>, \<open>privateChat\<close> and \<open>createMultiparty\<close> pass \<open>this.bus\<close> on: their
  children are on the manager's connection and no connection is opened.\<close>

lemma children_on_the_parent_bus:
  "VoiceCallManager_getCalls R g w = (Inr xs, w') \<Longrightarrow>
     connections w' = connections w \<and> list_all (\<lambda>x. vc_bus x = vcm_bus g) xs"
  "VoiceCallManager_privateChat R g path w = (Inr xs, w') \<Longrightarrow>
     connections w' = connections w \<and> list_all (\<lambda>x. vc_bus x = vcm_bus g) xs"
  "VoiceCallManager_createMultiparty R g w = (Inr xs, w') \<Longrightarrow>
     connections w' = connections w \<and> list_all (\<lambda>x. vc_bus x = vcm_bus g) xs"
  by (auto simp: VoiceCallManager_getCalls_def VoiceCallManager_privateChat_def
      VoiceCallManager_createMultiparty_def call_def
      split: sum.splits reply.splits dest!: fromDBusObjects_given_bus fromPaths_given_bus)

lemma ModemAdded_opens_connection:
  "connections (snd (Ofono_ModemAdded R this path modem w)) = Suc (connections w)"
  by (auto simp: Ofono_ModemAdded_def Modem_fromDBusObject_def defaultBus_def systemBus_def
      split: sum.splits prod.splits dest: Modem_new_connections)

lemma ModemAdded_example:
  "Ofono_ModemAdded good_bus \<lparr>o_bus = Connection 0\<rparr> ''/modem0'' (''/modem0'', modem_props) world0 =
     (Inr [Add ''/modem0''
             \<lparr>m_path = ''/modem0'', m_bus = Connection 1, m_online = Bool True,
              m_powered = Bool True, m_lockdown = Bool False, m_emergency = Null,
              m_name = Null, m_serial = Null, m_manufacturer = Null, m_model = Null,
              m_revision = Null, m_interfaces = Strs [''org.ofono.VoiceCallManager''],
              m_type = Str ''hardware''\<rparr>],
      \<lparr>sent = [Listen (Connection 1) ''/modem0'' ''org.ofono.Modem'' [''PropertyChanged'']],
       listeners = [(Connection 1, ''/modem0'', ''org.ofono.Modem'', ''PropertyChanged'')],
       connections = 2\<rparr>)"
  by (simp add: Ofono_ModemAdded_def Modem_fromDBusObject_def defaultBus_def systemBus_def
      world0_def Modem_data_modem_props Modem_new_def Let_def Modem_listenForChanges_def
      listen_def call_def good_bus_def nullish_def)

lemma dial_example:
  "VoiceCallManager_dial good_bus manager0 ''5551234567'' None world0 =
     (Inr \<lparr>vc_path = ''/ril_0/voicecall01'', vc_bus = Connection 1,
           vc_lineIdentification = Str ''5551234567'', vc_incomingLine = Undefined,
           vc_name = Str [], vc_multiparty = Bool False, vc_state = Undefined,
           vc_startTime = Undefined, vc_information = Undefined, vc_icon = Undefined,
           vc_emergency = Bool False, vc_remoteHeld = Bool False,
           vc_remoteMultiparty = Bool False\<rparr>,
      \<lparr>sent = [MethodCall (Connection 0) ''/ril_0'' ''org.ofono.VoiceCallManager'' ''Dial''
                 [Str ''5551234567'', Str ''default''],
               MethodCall (Connection 1) ''/ril_0/voicecall01'' ''org.ofono.VoiceCall''
                 ''GetProperties'' [],
               Listen (Connection 1) ''/ril_0/voicecall01'' ''org.ofono.VoiceCall''
                 [''DisconnectReason'', ''PropertyChanged'']],
       listeners = [(Connection 1, ''/ril_0/voicecall01'', ''org.ofono.VoiceCall'',
                     ''DisconnectReason''),
                    (Connection 1, ''/ril_0/voicecall01'', ''org.ofono.VoiceCall'',
                     ''PropertyChanged'')],
       connections = 2\<rparr>)"
  by (simp add: VoiceCallManager_dial_def manager0_def call_def good_bus_def world0_def
      VoiceCall_fromPath_def defaultBus_def systemBus_def VoiceCall_data_call_props
      VoiceCall_new_def Let_def VoiceCall_listenForChanges_def listen_def enum_active)

section \<open>The regular expression of sendTones\<close>

lemma class_matches_iff: "class_matches c = (c \<in> set ''0123456789abcdABCD*#'')"
proof -
  have "\<forall>c::char. class_matches c = (c \<in> set ''0123456789abcdABCD*#'')"
    by code_simp
  then show ?thesis by blast
qed

lemma tones_test_iff: "tones_test tones = (set tones \<subseteq> set ''0123456789abcdABCD*#'')"
  unfolding tones_test_def list_all_iff class_matches_iff by blast

section \<open>The claims\<close>

text \<open>
  C1. After any sequence of \<open>PropertyChanged\<close> notifications, each property of a Live
  mirror should hold the value of the last notification that named it. For the \<open>State\<close>
  of a voice call it does not: the handler looks the notified string up among the NAMES of
  \<open>VoiceCallState\<close> (\<open>Active\<close>, \<open>Held\<close>, ...), and oFono notifies the members' strings
  (\<open>active\<close>, \<open>held\<close>, ...), so after \<open>State = dialing\<close> and then \<open>State = active\<close> the
  getter returns \<open>undefined\<close>. (\<open>Modem_last_notification_wins\<close> and its siblings
  above give what holds for the other properties and the other mirrors.)
\<close>

theorem VoiceCall_state_notification_lost:
  "VoiceCall_property ''State''
     (VoiceCall_notify [(''State'', Str ''dialing''), (''State'', Str ''active'')] c)
   = Some Undefined"
  by (simp add: VoiceCall_property_def VoiceCall_PropertyChanged_def VoiceCallState_def
      enum_key_def Object_prototype_def)

text \<open>
  C2. When the modem's list of interfaces lacks the interface an entity depends on,
  \<open>NetworkRegistration.ofModem\<close>, \<open>VoiceCallManager.ofModem\<close> and \<open>Handsfree.ofModem\<close>
  fail with an error whose message names the modem's path and the interface, and the
  world is left as it was: nothing has been sent to the bus.
\<close>

theorem ofModem_capability_gate:
  assumes "m_interfaces m = Strs xs"
  shows "(''org.ofono.NetworkRegistration'' \<notin> set xs \<longrightarrow>
           NetworkRegistration_ofModem R m w =
             (Inl (Error (''node-ofono: Network.ofModem(): Modem '' @ m_path m @
                          '' does not support NetworkRegistration interface'')), w))
       \<and> (''org.ofono.VoiceCallManager'' \<notin> set xs \<longrightarrow>
           VoiceCallManager_ofModem R m w =
             (Inl (Error (''node-ofono: VoiceCallManager.ofModem(): Modem '' @ m_path m @
                          '' does not support VoiceCallManager interface'')), w))
       \<and> (''org.ofono.Handsfree'' \<notin> set xs \<longrightarrow>
           Handsfree_ofModem R m w =
             (Inl (Error (''node-ofono: Handsfree.ofModem(): Modem '' @ m_path m @
                          '' does not support Handsfree interface'')), w))"
  using assms
  by (simp add: NetworkRegistration_ofModem_def VoiceCallManager_ofModem_def
      Handsfree_ofModem_def indexOf_is_minus1_def bindE_def)

theorem ofModem_capability_gate_witness:
  "m_interfaces modem0 = Strs [''org.ofono.SimManager'']
   \<and> NetworkRegistration_ofModem good_bus modem0 world0 =
       (Inl (Error ''node-ofono: Network.ofModem(): Modem /modem0 does not support NetworkRegistration interface''),
        world0)
   \<and> VoiceCallManager_ofModem good_bus modem0 world0 =
       (Inl (Error ''node-ofono: VoiceCallManager.ofModem(): Modem /modem0 does not support VoiceCallManager interface''),
        world0)
   \<and> Handsfree_ofModem good_bus modem0 world0 =
       (Inl (Error ''node-ofono: Handsfree.ofModem(): Modem /modem0 does not support Handsfree interface''),
        world0)"
proof -
  have i: "m_interfaces modem0 = Strs [''org.ofono.SimManager'']"
    by (simp add: modem0_def)
  have p: "m_path modem0 = ''/modem0''"
    by (simp add: modem0_def)
  show ?thesis
    using i ofModem_capability_gate [OF i, of good_bus world0]
    by (simp add: p)
qed

text \<open>
  C3. Reading the getters right after \<open>fromDBusObject\<close> should give the decoded form of
  every value supplied, a voice call's \<open>State\<close> as the matching enum member, and \<open>null\<close>
  for an optional property that was not supplied. For the call that oFono lists with
  \<open>State = active\<close> and no \<open>IncomingLine\<close>, \<open>StartTime\<close>, \<open>Information\<close> or \<open>Icon\<close>, the
  \<open>state\<close> getter returns \<open>undefined\<close> and so do the four optional ones.
  (\<open>Modem_fromDBusObject_reads_back\<close> and \<open>absent_optional_reads_null\<close> above: a modem
  does read back what was supplied, and \<open>null\<close> for what was not.)
\<close>

theorem VoiceCall_fromDBusObject_state_undefined:
  "fst (VoiceCall_fromDBusObject R (''/ril_0/voicecall01'', call_props) (Some bus) w) =
     Inr \<lparr>vc_path = ''/ril_0/voicecall01'', vc_bus = bus,
          vc_lineIdentification = Str ''5551234567'', vc_incomingLine = Undefined,
          vc_name = Str [], vc_multiparty = Bool False, vc_state = Undefined,
          vc_startTime = Undefined, vc_information = Undefined, vc_icon = Undefined,
          vc_emergency = Bool False, vc_remoteHeld = Bool False,
          vc_remoteMultiparty = Bool False\<rparr>"
  by (simp add: VoiceCall_fromDBusObject_def defaultBus_def VoiceCall_data_call_props
      VoiceCall_new_def enum_active Let_def)




text \<open>
  C5. A notification naming a property the mirror does not model should change no
  field and emit no \<open>change\<close> event. The handler of \<open>NetworkRegistration\<close> leaves the
  fields alone but emits \<open>change\<close>: its default case ends in \<open>break\<close> where the other
  handlers \<open>return\<close> (\<open>Modem_unknown_property_ignored\<close> and its siblings above).
\<close>

theorem NetworkRegistration_unknown_property_emits_change:
  "NetworkRegistration_property p n = None \<Longrightarrow>
     NetworkRegistration_PropertyChanged p v n = (n, [Change])"
  unfolding NetworkRegistration_property_def map_of_eq_None_iff
  by (simp add: NetworkRegistration_PropertyChanged_def)

theorem NetworkRegistration_unknown_property_emits_change_witness:
  "NetworkRegistration_property ''Volume'' registration0 = None
   \<and> NetworkRegistration_PropertyChanged ''Volume'' (Num 3) registration0
       = (registration0, [Change])"
  using NetworkRegistration_unknown_property_emits_change [of "''Volume''" registration0 "Num 3"]
  by (simp add: NetworkRegistration_property_def)

text \<open>
  C6. For each of the six writable properties (\<open>online\<close>, \<open>powered\<close> and \<open>lockdown\<close> of
  a modem; \<open>voiceRecognition\<close>, \<open>echoCancellingNoiseReduction\<close> and
  \<open>distractedDrivingReduction\<close> of a handsfree), the setter followed by a notification
  for the same property leaves the mirror as the notification alone would: the property
  holds the notified value, whatever the setter wrote.
\<close>

theorem notification_overwrites_setter:
  "fst (Modem_PropertyChanged ''Online'' v' (fst (Modem_set_online R v m w)))
     = m\<lparr>m_online := v'\<rparr>
   \<and> fst (Modem_PropertyChanged ''Powered'' v' (fst (Modem_set_powered R v m w)))
     = m\<lparr>m_powered := v'\<rparr>
   \<and> fst (Modem_PropertyChanged ''Lockdown'' v' (fst (Modem_set_lockdown R v m w)))
     = m\<lparr>m_lockdown := v'\<rparr>
   \<and> fst (Handsfree_PropertyChanged ''VoiceRecognition'' v'
            (fst (Handsfree_set_voiceRecognition R v h w)))
     = h\<lparr>hf_voiceRecognition := v'\<rparr>
   \<and> fst (Handsfree_PropertyChanged ''EchoCancellingNoiseReduction'' v'
            (fst (Handsfree_set_echoCancellingNoiseReduction R u h w)))
     = h\<lparr>hf_echoCancellingNoiseReduction := v'\<rparr>
   \<and> fst (Handsfree_PropertyChanged ''DistractedDrivingReduction'' v'
            (fst (Handsfree_set_distractedDrivingReduction R u h w)))
     = h\<lparr>hf_distractedDrivingReduction := v'\<rparr>"
  by (simp add: Modem_PropertyChanged_def Modem_set_online_def Modem_set_powered_def
      Modem_set_lockdown_def Handsfree_PropertyChanged_def Handsfree_set_voiceRecognition_def
      Handsfree_set_echoCancellingNoiseReduction_def Handsfree_set_distractedDrivingReduction_def
      Let_def)

text \<open>
  C7. \<open>fromPath\<close> should fail, and return no mirror, when the property fetch or the
  subscription fails. On a bus that answers \<open>GetProperties\<close> and refuses the
  subscription, \<open>fromPath\<close> returns the mirror, and no listener is registered.
\<close>

theorem fromPath_returns_unsubscribed_counterexample:
  "deaf_bus (Listen (Connection 0) ''/ril_0/voicecall01'' ''org.ofono.VoiceCall''
              [''DisconnectReason'', ''PropertyChanged''])
     = Inl (RemoteFault ''no such interface'')
   \<and> VoiceCall_fromPath deaf_bus ''/ril_0/voicecall01'' (Some (Connection 0)) world0 =
       (Inr listed_call,
        \<lparr>sent = [MethodCall (Connection 0) ''/ril_0/voicecall01'' ''org.ofono.VoiceCall''
                   ''GetProperties'' [],
                 Listen (Connection 0) ''/ril_0/voicecall01'' ''org.ofono.VoiceCall''
                   [''DisconnectReason'', ''PropertyChanged'']],
         listeners = [], connections = 1\<rparr>)"
  by (simp add: VoiceCall_fromPath_def defaultBus_def call_def deaf_bus_def world0_def
      VoiceCall_data_call_props VoiceCall_new_def Let_def VoiceCall_listenForChanges_def
      listen_def listed_call_def enum_active)

text \<open>
  C7, as \<open>fromPath\<close> has it. When \<open>GetProperties\<close> fails, \<open>fromPath\<close> fails with that
  error and registers no listener. When \<open>GetProperties\<close> answers with the mandatory
  properties and the subscription is refused, \<open>fromPath\<close> still returns the mirror the
  constructor built, and no listener is registered: the constructor does not await
  \<open>listenForChanges\<close>.
\<close>

theorem fromPath_fails_on_fetch_only:
  assumes "defaultBus busarg w = (bus, w1)"
  shows "(R (MethodCall bus path ''org.ofono.VoiceCall'' ''GetProperties'' []) = Inl e \<longrightarrow>
            fst (VoiceCall_fromPath R path busarg w) = Inl e
            \<and> listeners (snd (VoiceCall_fromPath R path busarg w)) = listeners w)
       \<and> (R (MethodCall bus path ''org.ofono.VoiceCall'' ''GetProperties'' [])
            = Inr (Props props) \<longrightarrow>
          VoiceCall_data props = Inr d \<longrightarrow>
          R (Listen bus path ''org.ofono.VoiceCall'' [''DisconnectReason'', ''PropertyChanged''])
            = Inl e' \<longrightarrow>
            fst (VoiceCall_fromPath R path busarg w) = Inr (fst (VoiceCall_new R path d bus w))
            \<and> listeners (snd (VoiceCall_fromPath R path busarg w)) = listeners w)"
proof -
  have w1: "listeners w1 = listeners w"
    using assms by (auto simp: defaultBus_def systemBus_def split: option.splits)
  show ?thesis
    using assms w1
    by (simp add: VoiceCall_fromPath_def call_def VoiceCall_new_def Let_def
        VoiceCall_listenForChanges_def listen_refused)
qed

theorem fromPath_fails_on_fetch_only_witness:
  "fst (VoiceCall_fromPath dead_bus ''/ril_0/voicecall01'' (Some (Connection 0)) world0)
     = Inl (RemoteFault ''timeout'')
   \<and> fst (VoiceCall_fromPath deaf_bus ''/ril_0/voicecall01'' (Some (Connection 0)) world0)
     = Inr listed_call
   \<and> listeners (snd (VoiceCall_fromPath deaf_bus ''/ril_0/voicecall01''
                       (Some (Connection 0)) world0)) = []"
proof -
  have b: "defaultBus (Some (Connection 0)) world0 = (Connection 0, world0)"
    by (simp add: defaultBus_def)
  have "dead_bus (MethodCall (Connection 0) ''/ril_0/voicecall01'' ''org.ofono.VoiceCall''
                   ''GetProperties'' []) = Inl (RemoteFault ''timeout'')"
    by (simp add: dead_bus_def)
  moreover have "deaf_bus (MethodCall (Connection 0) ''/ril_0/voicecall01''
                   ''org.ofono.VoiceCall'' ''GetProperties'' []) = Inr (Props call_props)"
    by (simp add: deaf_bus_def)
  moreover have "deaf_bus (Listen (Connection 0) ''/ril_0/voicecall01'' ''org.ofono.VoiceCall''
                   [''DisconnectReason'', ''PropertyChanged''])
                 = Inl (RemoteFault ''no such interface'')"
    by (simp add: deaf_bus_def)
  moreover have "fst (VoiceCall_new deaf_bus ''/ril_0/voicecall01''
         ((\<lambda>_. Undefined)
            (''lineIdentification'' := Str ''5551234567'',
             ''incomingLine'' := Undefined,
             ''name'' := Str [],
             ''multiparty'' := Bool False,
             ''state'' := Str ''active'',
             ''startTime'' := Undefined,
             ''information'' := Undefined,
             ''icon'' := Undefined,
             ''emergency'' := Bool False,
             ''remoteHeld'' := Bool False,
             ''remoteMultiparty'' := Bool False)) (Connection 0) world0) = listed_call"
    by (simp add: VoiceCall_new_def Let_def listed_call_def enum_active)
  ultimately show ?thesis
    using fromPath_fails_on_fetch_only
        [OF b, where R = dead_bus and path = "''/ril_0/voicecall01''"]
      fromPath_fails_on_fetch_only
        [OF b, where R = deaf_bus and path = "''/ril_0/voicecall01''" and props = call_props]
      VoiceCall_data_call_props
    by (simp add: world0_def)
qed

text \<open>
  C8. \<open>answer()\<close> and \<open>swapCalls()\<close> are both said to call \<open>Hangup\<close>. \<open>swapCalls()\<close>
  calls \<open>Transfer\<close>.
\<close>

theorem swapCalls_sends_Transfer_counterexample:
  "sent (snd (VoiceCallManager_swapCalls good_bus manager0 world0)) =
     [MethodCall (Connection 0) ''/ril_0'' ''org.ofono.VoiceCallManager'' ''Transfer'' []]
   \<and> sent (snd (VoiceCallManager_swapCalls good_bus manager0 world0)) \<noteq>
     [MethodCall (Connection 0) ''/ril_0'' ''org.ofono.VoiceCallManager'' ''Hangup'' []]"
  by (simp add: VoiceCallManager_swapCalls_def manager0_def world0_def sent_action)

text \<open>
  C8, as the two methods have it: \<open>answer()\<close> sends exactly one request, \<open>Hangup\<close> on
  \<open>org.ofono.VoiceCall\<close>, as \<open>hangup()\<close> does; \<open>swapCalls()\<close> sends exactly one request,
  \<open>Transfer\<close> on \<open>org.ofono.VoiceCallManager\<close>, as \<open>transfer()\<close> does. Neither sends
  the protocol's \<open>Answer\<close> or \<open>SwapCalls\<close>.
\<close>

theorem answer_sends_Hangup_swapCalls_sends_Transfer:
  "sent (snd (VoiceCall_answer R c w)) =
     sent w @ [MethodCall (vc_bus c) (vc_path c) ''org.ofono.VoiceCall'' ''Hangup'' []]
   \<and> VoiceCall_answer R c w = VoiceCall_hangup R c w
   \<and> sent (snd (VoiceCallManager_swapCalls R g w)) =
     sent w @ [MethodCall (vcm_bus g) (vcm_path g) ''org.ofono.VoiceCallManager''
                 ''Transfer'' []]
   \<and> VoiceCallManager_swapCalls R g w = VoiceCallManager_transfer R g w"
  by (simp add: VoiceCall_answer_def VoiceCall_hangup_def VoiceCallManager_swapCalls_def
      VoiceCallManager_transfer_def sent_action)

text \<open>
  C9. Every child mirror should be built on its parent's connection, and no path
  should open a connection of its own. The handler of \<open>ModemAdded\<close> calls
  \<open>Modem.fromDBusObject(modem)\<close> and \<open>dial\<close> calls \<open>VoiceCall.fromPath(path)\<close>, both without
  the bus, so the default \<open>systemBus()\<close> is evaluated: the handler opens a connection
  every time it runs, and with the parent on connection 0 the modem added and the call
  dialled are on connection 1. (\<open>children_on_the_parent_bus\<close> above: \<open>getCalls\<close>,
  \<open>privateChat\<close> and \<open>createMultiparty\<close> do pass the bus on.)
\<close>

theorem ModemAdded_and_dial_open_a_connection:
  "connections (snd (Ofono_ModemAdded R this path modem w)) = Suc (connections w)
   \<and> Ofono_ModemAdded good_bus \<lparr>o_bus = Connection 0\<rparr> ''/modem0'' (''/modem0'', modem_props)
       world0 =
     (Inr [Add ''/modem0''
             \<lparr>m_path = ''/modem0'', m_bus = Connection 1, m_online = Bool True,
              m_powered = Bool True, m_lockdown = Bool False, m_emergency = Null,
              m_name = Null, m_serial = Null, m_manufacturer = Null, m_model = Null,
              m_revision = Null, m_interfaces = Strs [''org.ofono.VoiceCallManager''],
              m_type = Str ''hardware''\<rparr>],
      \<lparr>sent = [Listen (Connection 1) ''/modem0'' ''org.ofono.Modem'' [''PropertyChanged'']],
       listeners = [(Connection 1, ''/modem0'', ''org.ofono.Modem'', ''PropertyChanged'')],
       connections = 2\<rparr>)
   \<and> vcm_bus manager0 = Connection 0
   \<and> map_sum id vc_bus (fst (VoiceCallManager_dial good_bus manager0 ''5551234567'' None world0))
       = Inr (Connection 1)
   \<and> connections (snd (VoiceCallManager_dial good_bus manager0 ''5551234567'' None world0)) = 2"
proof -
  have "vcm_bus manager0 = Connection 0"
    by (simp add: manager0_def)
  then show ?thesis
    by (simp add: ModemAdded_opens_connection ModemAdded_example dial_example)
qed

text \<open>
  C10. \<open>sendTones\<close> throws, with nothing sent, when the string has a character other
  than \<open>0\<close>-\<open>9\<close>, \<open>a\<close>-\<open>d\<close>, \<open>A\<close>-\<open>D\<close>, \<open>*\<close> and \<open>#\<close>; otherwise, the empty string
  included, it sends exactly one request, \<open>SendTones\<close> with the string as it was given.
\<close>

theorem sendTones_validates_before_sending:
  "VoiceCallManager_sendTones R g tones w =
     (if set tones \<subseteq> set ''0123456789abcdABCD*#''
      then action R (MethodCall (vcm_bus g) (vcm_path g) ''org.ofono.VoiceCallManager''
                       ''SendTones'' [Str tones]) w
      else (Inl (Error ''node-ofono: VoiceCallManager: sendTones(): invalid tone(s)''), w))
   \<and> sent (snd (VoiceCallManager_sendTones R g tones w)) =
     (if set tones \<subseteq> set ''0123456789abcdABCD*#''
      then sent w @ [MethodCall (vcm_bus g) (vcm_path g) ''org.ofono.VoiceCallManager''
                       ''SendTones'' [Str tones]]
      else sent w)"
  by (simp add: VoiceCallManager_sendTones_def tones_test_iff sent_action del: set_simps)

end
